theory Spec2Isabelle
  imports Main
begin

section \<open>The IRC-to-Discord bridge of \<^verbatim>\<open>lib/bot.js\<close>\<close>

text \<open>
  The class \<^verbatim>\<open>Bot\<close> is embedded as a record of its fields; every method and every
  event listener is a function from the bot (and the listener's arguments) to the list of
  calls it makes on its collaborators (logger, IRC client, Discord webhook) and the bot
  afterwards. A JavaScript exception is a value of type \<open>error\<close>. An absent property
  (\<^verbatim>\<open>undefined\<close>) is \<open>None\<close>. Two functions the listeners call are not part of the
  file: \<^verbatim>\<open>String.prototype.toLowerCase\<close> belongs to the runtime and
  \<^verbatim>\<open>formatFromIRCToDiscord\<close> to another module. They are the parameters \<open>toLowerCase\<close>
  and \<open>fmt\<close> of every definition that calls them, so that what is proved holds whatever
  they compute.
\<close>

subsection \<open>Values, errors and calls on collaborators\<close>

text \<open>The values that occur in the option object handed to \<^verbatim>\<open>irc.Client\<close>.\<close>

datatype jsval = JUndefined | JNull | JBool bool | JNum int | JStr string | JArr "jsval list"

text \<open>
  A JavaScript object literal: its own properties in insertion order, keys distinct.
\<close>

type_synonym obj = "(string \<times> jsval) list"

text \<open>
  \<^verbatim>\<open>ConfigurationError\<close> carries its message. \<^verbatim>\<open>TypeError\<close> is what the runtime throws
  for a property access or method call on \<^verbatim>\<open>undefined\<close>; it carries the expression that
  was undefined (or, where an accessor refuses, the accessor).
\<close>

datatype error = ConfigurationError string | TypeError string

datatype level = LDebug | LInfo | LWarn | LError

text \<open>The arguments printed by a logger call: strings, arrays of strings, and the
  \<^verbatim>\<open>nicks\<close> object of a names event.\<close>

datatype arg = Str string | Strs "string list" | Nicks "(string \<times> string) list"

datatype effect =
    Log level "arg list"
  | NewWebhookClient "string option" "string option"
  | NewIrcClient "string option" "string option" obj
  | IrcSend "string list"
  | IrcJoin string
  | SendMessage string "string option"

subsection \<open>Configuration and the bot\<close>

text \<open>
  The \<^verbatim>\<open>options\<close> argument of the constructor. A string entry is \<open>None\<close> when the key
  is absent; the two flags are only ever tested for truthiness, so an absent flag is
  \<open>False\<close>.
\<close>

record options =
  ircNickname :: "string option"
  ircServer :: "string option"
  ircChannel :: "string option"
  discordId :: "string option"
  discordToken :: "string option"
  ircOptions :: "obj option"
  commandCharacters :: "string list option"
  channelMapping :: "(string \<times> string) list option"
  ircStatusNotices :: bool
  announceSelfJoin :: bool
  autoSendCommands :: "string list list option"

text \<open>
  \<^verbatim>\<open>this.channelUsers\<close> starts as the object literal \<^verbatim>\<open>{}\<close>, an ordinary object whose
  prototype is \<^verbatim>\<open>Object.prototype\<close>. The listeners index it with the channel name, so
  what a read finds is an own property (a \<^verbatim>\<open>Set\<close> of nicknames stored by the names
  listener) or else whatever the prototype chain holds under that name. The string-keyed
  properties of \<^verbatim>\<open>Object.prototype\<close> and of \<^verbatim>\<open>Set.prototype\<close> (ECMAScript 2015 with
  Annex B, as in Node.js):
\<close>

definition Object_prototype :: "string list" where
  "Object_prototype =
     [''constructor'', ''__defineGetter__'', ''__defineSetter__'', ''hasOwnProperty'',
      ''__lookupGetter__'', ''__lookupSetter__'', ''isPrototypeOf'', ''propertyIsEnumerable'',
      ''toString'', ''valueOf'', ''__proto__'', ''toLocaleString'']"

definition Set_prototype :: "string list" where
  "Set_prototype =
     [''constructor'', ''has'', ''add'', ''delete'', ''clear'', ''entries'', ''forEach'',
      ''size'', ''values'', ''keys'']"

text \<open>
  The object: its own properties, and its prototype when that is no longer
  \<^verbatim>\<open>Object.prototype\<close>. The only way the listeners can replace the prototype is the
  assignment \<^verbatim>\<open>this.channelUsers['__proto__'] = new Set(...)\<close>, which runs the
  \<^verbatim>\<open>__proto__\<close> setter instead of creating a property; \<open>prototype\<close> is then the set.
\<close>

record users_object =
  properties :: "string \<rightharpoonup> string set"
  prototype :: "string set option"

text \<open>
  What \<^verbatim>\<open>this.channelUsers[channel]\<close> evaluates to: \<^verbatim>\<open>undefined\<close>; a set of nicknames;
  an inherited value that is not a set (a method, a constructor function,
  \<^verbatim>\<open>Object.prototype\<close> itself), which is truthy and has neither \<^verbatim>\<open>add\<close> nor
  \<^verbatim>\<open>delete\<close>; or no value at all, because the getter of \<^verbatim>\<open>Set.prototype.size\<close> throws
  when the receiver is not a set.
\<close>

datatype property = Undefined | Members "string set" | Inherited | Refused

definition get_property :: "users_object \<Rightarrow> string \<Rightarrow> property" where
  "get_property obj channel =
     (case properties obj channel of
        Some users \<Rightarrow> Members users
      | None \<Rightarrow>
         (case prototype obj of
            None \<Rightarrow> if channel \<in> set Object_prototype then Inherited else Undefined
          | Some users \<Rightarrow>
             if channel = ''__proto__'' then Members users
             else if channel = ''size'' then Refused
             else if channel \<in> set Set_prototype \<or> channel \<in> set Object_prototype then Inherited
             else Undefined))"

text \<open>
  \<^verbatim>\<open>this.channelUsers[channel] = users\<close>. The module is strict code, so assigning to an
  inherited accessor that has no setter throws.
\<close>

definition set_property :: "users_object \<Rightarrow> string \<Rightarrow> string set \<Rightarrow> error + users_object" where
  "set_property obj channel users =
     (if channel = ''__proto__'' then Inr (obj\<lparr>prototype := Some users\<rparr>)
      else if channel = ''size'' \<and> properties obj channel = None \<and> prototype obj \<noteq> None
      then Inl (TypeError ''Set.prototype.size'')
      else Inr (obj\<lparr>properties := (properties obj)(channel \<mapsto> users)\<rparr>))"

text \<open>
  \<^verbatim>\<open>add\<close> and \<^verbatim>\<open>delete\<close> change the set that the read found, in place: the own
  property under that name, or the set that has become the prototype.
\<close>

definition replace_members :: "users_object \<Rightarrow> string \<Rightarrow> string set \<Rightarrow> users_object" where
  "replace_members obj channel users =
     (case properties obj channel of
        Some old \<Rightarrow> obj\<lparr>properties := (properties obj)(channel \<mapsto> users)\<rparr>
      | None \<Rightarrow> obj\<lparr>prototype := Some users\<rparr>)"

text \<open>\<^verbatim>\<open>delete this.channelUsers[channel]\<close> removes an own property and nothing else.\<close>

definition delete_property :: "users_object \<Rightarrow> string \<Rightarrow> users_object" where
  "delete_property obj channel = obj\<lparr>properties := (properties obj)(channel := None)\<rparr>"

text \<open>
  The fields of a \<^verbatim>\<open>Bot\<close>. \<open>invertedMapping\<close> is read by the invite listener; no
  statement of the class assigns it.
\<close>

record bot =
  ircNickname :: "string option"
  ircServer :: "string option"
  ircChannel :: "string option"
  ircOptions :: "obj option"
  discordId :: "string option"
  discordToken :: "string option"
  commandCharacters :: "string list"
  channels :: "string list"
  ircStatusNotices :: bool
  announceSelfJoin :: bool
  autoSendCommands :: "string list list"
  channelUsers :: users_object
  invertedMapping :: "(string \<rightharpoonup> string) option"

definition REQUIRED_FIELDS :: "string list" where
  "REQUIRED_FIELDS = [''ircNickname'', ''ircServer'', ''ircChannel'', ''discordId'', ''discordToken'']"

text \<open>\<^verbatim>\<open>options[field]\<close> for a field name of \<open>REQUIRED_FIELDS\<close>.\<close>

definition field :: "options \<Rightarrow> string \<Rightarrow> string option" where
  "field opts f =
     (if f = ''ircNickname'' then options.ircNickname opts
      else if f = ''ircServer'' then options.ircServer opts
      else if f = ''ircChannel'' then options.ircChannel opts
      else if f = ''discordId'' then options.discordId opts
      else if f = ''discordToken'' then options.discordToken opts
      else None)"

text \<open>Truthiness of a string that may be absent: \<^verbatim>\<open>undefined\<close> and \<^verbatim>\<open>''\<close> are falsy.\<close>

definition truthy :: "string option \<Rightarrow> bool" where
  "truthy v = (case v of None \<Rightarrow> False | Some s \<Rightarrow> s \<noteq> [])"

text \<open>
  \<^verbatim>\<open>REQUIRED_FIELDS.forEach\<close>: the first falsy field throws, which ends the loop.
\<close>

fun check_required :: "options \<Rightarrow> string list \<Rightarrow> error option" where
  "check_required opts [] = None"
| "check_required opts (f # fs) =
     (if \<not> truthy (field opts f)
      then Some (ConfigurationError (''Missing configuration field '' @ f))
      else check_required opts fs)"

text \<open>\<^verbatim>\<open>x || []\<close> and \<^verbatim>\<open>_.values(x)\<close> on a value that may be absent.\<close>

definition or_empty :: "'a list option \<Rightarrow> 'a list" where
  "or_empty v = (case v of None \<Rightarrow> [] | Some xs \<Rightarrow> xs)"

definition lodash_values :: "(string \<times> string) list option \<Rightarrow> string list" where
  "lodash_values v = (case v of None \<Rightarrow> [] | Some kvs \<Rightarrow> map snd kvs)"

definition constructor :: "options \<Rightarrow> effect list \<times> (error + bot)" where
  "constructor opts =
     (case check_required opts REQUIRED_FIELDS of
        Some e \<Rightarrow> ([], Inl e)
      | None \<Rightarrow>
         ([NewWebhookClient (options.discordId opts) (options.discordToken opts)],
          Inr \<lparr> ircNickname = options.ircNickname opts,
                ircServer = options.ircServer opts,
                ircChannel = options.ircChannel opts,
                ircOptions = options.ircOptions opts,
                discordId = options.discordId opts,
                discordToken = options.discordToken opts,
                commandCharacters = or_empty (options.commandCharacters opts),
                channels = lodash_values (options.channelMapping opts),
                ircStatusNotices = options.ircStatusNotices opts,
                announceSelfJoin = options.announceSelfJoin opts,
                autoSendCommands = or_empty (options.autoSendCommands opts),
                channelUsers = \<lparr> properties = Map.empty, prototype = None \<rparr>,
                invertedMapping = None \<rparr>))"

subsection \<open>Connecting\<close>

text \<open>
  Object spread \<^verbatim>\<open>{...defaults, ...extra}\<close>: each own property of \<open>extra\<close>, in order,
  replaces the value of a key already present (keeping its position) or is appended.
  Spreading \<^verbatim>\<open>undefined\<close> adds nothing.
\<close>

fun set_prop :: "obj \<Rightarrow> string \<Rightarrow> jsval \<Rightarrow> obj" where
  "set_prop [] k v = [(k, v)]"
| "set_prop ((k', v') # ps) k v =
     (if k' = k then (k', v) # ps else (k', v') # set_prop ps k v)"

fun spread :: "obj \<Rightarrow> obj \<Rightarrow> obj" where
  "spread ps [] = ps"
| "spread ps ((k, v) # extra) = spread (set_prop ps k v) extra"

definition js :: "string option \<Rightarrow> jsval" where
  "js v = (case v of None \<Rightarrow> JUndefined | Some s \<Rightarrow> JStr s)"

definition default_ircOptions :: "bot \<Rightarrow> obj" where
  "default_ircOptions b =
     [(''userName'', js (ircNickname b)),
      (''realName'', js (ircNickname b)),
      (''channels'', JArr [js (ircChannel b)]),
      (''floodProtection'', JBool True),
      (''floodProtectionDelay'', JNum 500),
      (''retryCount'', JNum 10)]"

definition resolved_ircOptions :: "bot \<Rightarrow> obj" where
  "resolved_ircOptions b =
     (case ircOptions b of
        None \<Rightarrow> default_ircOptions b
      | Some extra \<Rightarrow> spread (default_ircOptions b) extra)"

text \<open>
  \<^verbatim>\<open>attachListeners\<close> registers the listeners (the functions of the next subsection) and
  then, when the logger's level is \<^verbatim>\<open>'debug'\<close>, calls \<^verbatim>\<open>this.discord.on\<close>; no statement
  of the class assigns \<^verbatim>\<open>this.discord\<close>.
\<close>

definition attachListeners :: "string \<Rightarrow> error option" where
  "attachListeners logger_level =
     (if logger_level = ''debug'' then Some (TypeError ''this.discord'') else None)"

definition connect :: "string \<Rightarrow> bot \<Rightarrow> effect list \<times> error option" where
  "connect logger_level b =
     ([Log LDebug [Str ''Connecting to IRC and Discord''],
       NewIrcClient (ircServer b) (ircNickname b) (resolved_ircOptions b)],
      attachListeners logger_level)"

subsection \<open>Sending to Discord\<close>

text \<open>Neither method changes the bot.\<close>

definition sendToDiscord :: "(string \<Rightarrow> string) \<Rightarrow> bot \<Rightarrow> string \<Rightarrow> string \<Rightarrow> string \<Rightarrow> effect list" where
  "sendToDiscord fmt b author channel text =
     (if Some channel \<noteq> ircChannel b then []
      else [Log LDebug [Str ''Sending message to Discord'', Str (fmt text), Str channel],
            SendMessage (fmt text) (Some author)])"

definition sendExactToDiscord :: "bot \<Rightarrow> string \<Rightarrow> string \<Rightarrow> effect list" where
  "sendExactToDiscord b channel text =
     (if Some channel \<noteq> ircChannel b then []
      else [Log LDebug [Str ''Sending special message to Discord'', Str text, Str channel],
            SendMessage text None])"

subsection \<open>The listeners\<close>

text \<open>
  A listener returns or throws; either way the bot is as the listener left it, which
  matters for the quit listener, whose loop can throw after it has removed a nick.
\<close>

datatype outcome = Returned bot | Threw error bot

fun after :: "outcome \<Rightarrow> bot" where
  "after (Returned b) = b"
| "after (Threw e b) = b"

fun thrown :: "outcome \<Rightarrow> error option" where
  "thrown (Returned b) = None"
| "thrown (Threw e b) = Some e"

definition on_registered :: "bot \<Rightarrow> string \<Rightarrow> effect list" where
  "on_registered b message =
     [Log LInfo [Str ''Connected to IRC''], Log LDebug [Str ''Registered event: '', Str message]]
     @ map IrcSend (autoSendCommands b)"

definition on_error :: "bot \<Rightarrow> string \<Rightarrow> effect list" where
  "on_error b err = [Log LError [Str ''Received error event from IRC'', Str err]]"

definition on_message :: "(string \<Rightarrow> string) \<Rightarrow> bot \<Rightarrow> string \<Rightarrow> string \<Rightarrow> string \<Rightarrow> effect list" where
  "on_message fmt b author to text = sendToDiscord fmt b author to text"

definition on_notice :: "(string \<Rightarrow> string) \<Rightarrow> bot \<Rightarrow> string \<Rightarrow> string \<Rightarrow> string \<Rightarrow> effect list" where
  "on_notice fmt b author to text = sendToDiscord fmt b author to (''*'' @ text @ ''*'')"

definition on_action :: "(string \<Rightarrow> string) \<Rightarrow> bot \<Rightarrow> string \<Rightarrow> string \<Rightarrow> string \<Rightarrow> effect list" where
  "on_action fmt b author to text = sendToDiscord fmt b author to (''_'' @ text @ ''_'')"

text \<open>
  The join listener calls \<^verbatim>\<open>this.channelUsers[channel].add(nick)\<close> without testing what
  the read found: on \<^verbatim>\<open>undefined\<close>, and on an inherited value without \<^verbatim>\<open>add\<close>, the
  call throws, after the debug line and before anything is sent.
\<close>

definition on_join :: "(string \<Rightarrow> string) \<Rightarrow> bot \<Rightarrow> string \<Rightarrow> string \<Rightarrow> effect list \<times> outcome" where
  "on_join toLowerCase b channelName nick =
     (let channel = toLowerCase channelName;
          received = Log LDebug [Str ''Received join:'', Str channelName, Str nick]
      in if Some channel \<noteq> ircChannel b then ([], Returned b)
         else if \<not> ircStatusNotices b then ([received], Returned b)
         else if Some nick = ircNickname b \<and> \<not> announceSelfJoin b then ([received], Returned b)
         else if Some nick \<noteq> ircNickname b then
           (case get_property (channelUsers b) channel of
              Undefined \<Rightarrow> ([received], Threw (TypeError ''this.channelUsers[channel]'') b)
            | Refused \<Rightarrow> ([received], Threw (TypeError ''Set.prototype.size'') b)
            | Inherited \<Rightarrow> ([received], Threw (TypeError ''this.channelUsers[channel].add'') b)
            | Members users \<Rightarrow>
               (received # sendExactToDiscord b channel (''*'' @ nick @ ''* has joined the channel''),
                Returned (b\<lparr>channelUsers :=
                            replace_members (channelUsers b) channel (insert nick users)\<rparr>)))
         else (received # sendExactToDiscord b channel (''*'' @ nick @ ''* has joined the channel''),
               Returned b))"

text \<open>
  The part listener tests \<^verbatim>\<open>this.channelUsers[channel]\<close> for truthiness before it calls
  \<^verbatim>\<open>delete\<close> on it. An inherited value passes the test and has no \<^verbatim>\<open>delete\<close>.
\<close>

definition on_part :: "(string \<Rightarrow> string) \<Rightarrow> bot \<Rightarrow> string \<Rightarrow> string \<Rightarrow> string \<Rightarrow> effect list \<times> outcome" where
  "on_part toLowerCase b channelName nick reason =
     (let channel = toLowerCase channelName;
          received = Log LDebug [Str ''Received part:'', Str channelName, Str nick, Str reason];
          relay = sendExactToDiscord b channel
                    (''*'' @ nick @ ''* has left the channel ('' @ reason @ '')'')
      in if Some channel \<noteq> ircChannel b then ([], Returned b)
         else if \<not> ircStatusNotices b then ([received], Returned b)
         else if Some nick = ircNickname b then
           ([received, Log LDebug [Str ''Deleting channelUsers as bot parted:'', Str channel]],
            Returned (b\<lparr>channelUsers := delete_property (channelUsers b) channel\<rparr>))
         else
           (case get_property (channelUsers b) channel of
              Members users \<Rightarrow>
               (received # relay,
                Returned (b\<lparr>channelUsers :=
                            replace_members (channelUsers b) channel (users - {nick})\<rparr>))
            | Inherited \<Rightarrow> ([received], Threw (TypeError ''this.channelUsers[channel].delete'') b)
            | Refused \<Rightarrow> ([received], Threw (TypeError ''Set.prototype.size'') b)
            | Undefined \<Rightarrow>
               (received
                # Log LWarn [Str (''No channelUsers found for '' @ channel @ '' when '' @ nick
                                  @ '' parted.'')]
                # relay,
                Returned b)))"

text \<open>
  The body of \<^verbatim>\<open>channels.forEach\<close> in the quit listener, for one channel name.
  \<^verbatim>\<open>Set.prototype.delete\<close> returns whether the nick was in the set.
\<close>

definition quit_channel :: "(string \<Rightarrow> string) \<Rightarrow> bot \<Rightarrow> string \<Rightarrow> string \<Rightarrow> string \<Rightarrow> effect list \<times> outcome" where
  "quit_channel toLowerCase b nick reason channelName =
     (let channel = toLowerCase channelName
      in case get_property (channelUsers b) channel of
           Undefined \<Rightarrow>
            ([Log LWarn [Str (''No channelUsers found for '' @ channel @ '' when '' @ nick
                              @ '' quit, ignoring.'')]],
             Returned b)
         | Refused \<Rightarrow> ([], Threw (TypeError ''Set.prototype.size'') b)
         | Inherited \<Rightarrow> ([], Threw (TypeError ''this.channelUsers[channel].delete'') b)
         | Members users \<Rightarrow>
            (if nick \<notin> users then ([], Returned b)
             else (sendExactToDiscord b channel (''*'' @ nick @ ''* has quit ('' @ reason @ '')''),
                   Returned (b\<lparr>channelUsers :=
                               replace_members (channelUsers b) channel (users - {nick})\<rparr>))))"

text \<open>\<^verbatim>\<open>channels.forEach\<close>: an exception in the body ends the loop.\<close>

fun quit_channels :: "(string \<Rightarrow> string) \<Rightarrow> bot \<Rightarrow> string \<Rightarrow> string \<Rightarrow> string list \<Rightarrow> effect list \<times> outcome" where
  "quit_channels toLowerCase b nick reason [] = ([], Returned b)"
| "quit_channels toLowerCase b nick reason (channelName # rest) =
     (case quit_channel toLowerCase b nick reason channelName of
        (es, Threw e b') \<Rightarrow> (es, Threw e b')
      | (es, Returned b') \<Rightarrow>
         (case quit_channels toLowerCase b' nick reason rest of (es', r) \<Rightarrow> (es @ es', r)))"

definition on_quit :: "(string \<Rightarrow> string) \<Rightarrow> bot \<Rightarrow> string \<Rightarrow> string \<Rightarrow> string list \<Rightarrow> effect list \<times> outcome" where
  "on_quit toLowerCase b nick reason chans =
     (let received = Log LDebug [Str ''Received quit:'', Str nick, Strs chans]
      in if \<not> ircStatusNotices b \<or> Some nick = ircNickname b then ([received], Returned b)
         else (case quit_channels toLowerCase b nick reason chans of
                 (es, r) \<Rightarrow> (received # es, r)))"

text \<open>\<open>nicks\<close> is the object of the names event: nickname to mode prefix.\<close>

definition on_names :: "(string \<Rightarrow> string) \<Rightarrow> bot \<Rightarrow> string \<Rightarrow> (string \<times> string) list \<Rightarrow> effect list \<times> outcome" where
  "on_names toLowerCase b channelName nicks =
     (let channel = toLowerCase channelName;
          received = Log LDebug [Str ''Received names:'', Str channelName, Nicks nicks]
      in if Some channel \<noteq> ircChannel b then ([], Returned b)
         else if \<not> ircStatusNotices b then ([received], Returned b)
         else
           (case set_property (channelUsers b) channel (set (map fst nicks)) of
              Inl e \<Rightarrow> ([received], Threw e b)
            | Inr obj \<Rightarrow> ([received], Returned (b\<lparr>channelUsers := obj\<rparr>))))"

text \<open>
  The invite listener reads \<^verbatim>\<open>this.invertedMapping[channel]\<close>; when \<open>invertedMapping\<close>
  is \<^verbatim>\<open>undefined\<close> the read throws. An entry that is absent or the empty string is falsy.
\<close>

definition on_invite :: "bot \<Rightarrow> string \<Rightarrow> string \<Rightarrow> effect list \<times> outcome" where
  "on_invite b channel from =
     (let received = Log LDebug [Str ''Received invite:'', Str channel, Str from]
      in if Some channel \<noteq> ircChannel b then ([], Returned b)
         else
           (case invertedMapping b of
              None \<Rightarrow> ([received], Threw (TypeError ''this.invertedMapping'') b)
            | Some m \<Rightarrow>
               (if \<not> truthy (m channel)
                then ([received, Log LDebug [Str ''Channel not found in config, not joining:'', Str channel]],
                      Returned b)
                else ([received, IrcJoin channel, Log LDebug [Str ''Joining channel:'', Str channel]],
                      Returned b))))"

subsection \<open>The event stream\<close>

datatype event =
    Registered string
  | ErrorEvent string
  | Message string string string
  | Notice string string string
  | Join string string
  | Part string string string
  | Quit string string "string list"
  | Names string "(string \<times> string) list"
  | Action string string string
  | Invite string string

fun handle :: "(string \<Rightarrow> string) \<Rightarrow> (string \<Rightarrow> string) \<Rightarrow> bot \<Rightarrow> event \<Rightarrow> effect list \<times> outcome" where
  "handle toLowerCase fmt b (Registered message) = (on_registered b message, Returned b)"
| "handle toLowerCase fmt b (ErrorEvent err) = (on_error b err, Returned b)"
| "handle toLowerCase fmt b (Message author to text) = (on_message fmt b author to text, Returned b)"
| "handle toLowerCase fmt b (Notice author to text) = (on_notice fmt b author to text, Returned b)"
| "handle toLowerCase fmt b (Join channelName nick) = on_join toLowerCase b channelName nick"
| "handle toLowerCase fmt b (Part channelName nick reason) =
     on_part toLowerCase b channelName nick reason"
| "handle toLowerCase fmt b (Quit nick reason chans) = on_quit toLowerCase b nick reason chans"
| "handle toLowerCase fmt b (Names channelName nicks) = on_names toLowerCase b channelName nicks"
| "handle toLowerCase fmt b (Action author to text) = (on_action fmt b author to text, Returned b)"
| "handle toLowerCase fmt b (Invite channel from) = on_invite b channel from"

text \<open>
  A run of the bridge over a list of events. An exception leaves the listener, so the run
  ends there, with the bot as the listener left it.
\<close>

fun run :: "(string \<Rightarrow> string) \<Rightarrow> (string \<Rightarrow> string) \<Rightarrow> bot \<Rightarrow> event list
            \<Rightarrow> effect list \<times> error option \<times> bot" where
  "run toLowerCase fmt b [] = ([], None, b)"
| "run toLowerCase fmt b (ev # evs) =
     (case handle toLowerCase fmt b ev of
        (es, Threw e b') \<Rightarrow> (es, Some e, b')
      | (es, Returned b') \<Rightarrow>
         (case run toLowerCase fmt b' evs of (es', r) \<Rightarrow> (es @ es', r)))"

text \<open>
  The bots a bridge built from \<open>opts\<close> can be in: the constructor succeeded and \<open>evs\<close>
  has been delivered.
\<close>

definition reachable :: "(string \<Rightarrow> string) \<Rightarrow> (string \<Rightarrow> string) \<Rightarrow> options \<Rightarrow> event list \<Rightarrow> bot \<Rightarrow> bool" where
  "reachable toLowerCase fmt opts evs b =
     (case constructor opts of
        (es, Inl e) \<Rightarrow> False
      | (es, Inr b0) \<Rightarrow> snd (snd (run toLowerCase fmt b0 evs)) = b)"

subsection \<open>What an observer of the bridge sees\<close>

text \<open>
  What reaches the outside apart from debug lines: a warning in the log, a message sent
  to the webhook verbatim (no user name), a message sent under an author's name.
\<close>

datatype observation = Warning | Exact string | Formatted string string

fun observe :: "effect list \<Rightarrow> observation list" where
  "observe [] = []"
| "observe (Log LWarn args # es) = Warning # observe es"
| "observe (SendMessage body None # es) = Exact body # observe es"
| "observe (SendMessage body (Some user) # es) = Formatted user body # observe es"
| "observe (e # es) = observe es"

text \<open>Case-insensitive equality of channel names, as the specification words it.\<close>

definition equals_ignoring_case :: "(string \<Rightarrow> string) \<Rightarrow> string \<Rightarrow> string \<Rightarrow> bool" where
  "equals_ignoring_case toLowerCase a c = (toLowerCase a = toLowerCase c)"

text \<open>The events that the specification lets change the membership map.\<close>

fun membership_event :: "event \<Rightarrow> bool" where
  "membership_event (Join channelName nick) = True"
| "membership_event (Part channelName nick reason) = True"
| "membership_event (Quit nick reason chans) = True"
| "membership_event (Names channelName nicks) = True"
| "membership_event ev = False"

text \<open>
  The quit policy as the specification words it, on a membership map (normalized channel
  name to set of nicknames): for each channel the user was in, in order, a channel
  without a membership set is warned about and skipped; a set that does not hold the
  nick gives no relay; otherwise the nick is removed and the quit is relayed verbatim.
\<close>

fun spec_quit ::
  "(string \<Rightarrow> string) \<Rightarrow> string \<Rightarrow> string \<Rightarrow> (string \<rightharpoonup> string set) \<Rightarrow> string list
   \<Rightarrow> observation list \<times> (string \<rightharpoonup> string set)" where
  "spec_quit toLowerCase nick reason m [] = ([], m)"
| "spec_quit toLowerCase nick reason m (c # cs) =
     (case m (toLowerCase c) of
        None \<Rightarrow>
         (case spec_quit toLowerCase nick reason m cs of (os, m') \<Rightarrow> (Warning # os, m'))
      | Some users \<Rightarrow>
         (if nick \<in> users
          then (case spec_quit toLowerCase nick reason (m(toLowerCase c \<mapsto> users - {nick})) cs of
                  (os, m') \<Rightarrow> (Exact (''*'' @ nick @ ''* has quit ('' @ reason @ '')'') # os, m'))
          else spec_quit toLowerCase nick reason m cs))"

text \<open>
  The invariant of the membership object: its only own property is the target channel,
  and its prototype has been replaced only on a bridge whose target channel is
  \<^verbatim>\<open>__proto__\<close>.
\<close>

definition only_target :: "bot \<Rightarrow> bool" where
  "only_target b =
     ((\<forall>k users. properties (channelUsers b) k = Some users \<longrightarrow> ircChannel b = Some k)
      \<and> (\<forall>users. prototype (channelUsers b) = Some users \<longrightarrow> ircChannel b = Some ''__proto__''))"

subsection \<open>Examples\<close>

text \<open>
  A lower-casing for the examples: it maps the letters A to Z to a to z and leaves every
  other character alone, which is what \<^verbatim>\<open>String.prototype.toLowerCase\<close> computes on a
  string of ASCII characters. Every string in the examples is ASCII.
\<close>

definition ascii_lower_char :: "char \<Rightarrow> char" where
  "ascii_lower_char c =
     (let n = (of_char c :: nat) in if 65 \<le> n \<and> n \<le> 90 then char_of (n + 32) else c)"

definition ascii_toLowerCase :: "string \<Rightarrow> string" where
  "ascii_toLowerCase s = map ascii_lower_char s"

definition example_options :: options where
  "example_options =
     \<lparr> options.ircNickname = Some ''bridge'', options.ircServer = Some ''irc.example.org'',
       options.ircChannel = Some ''#test'', options.discordId = Some ''42'',
       options.discordToken = Some ''secret'', options.ircOptions = None,
       options.commandCharacters = None, options.channelMapping = None,
       options.ircStatusNotices = True, options.announceSelfJoin = False,
       options.autoSendCommands = None \<rparr>"

definition example_bot :: bot where
  "example_bot =
     \<lparr> ircNickname = Some ''bridge'', ircServer = Some ''irc.example.org'',
       ircChannel = Some ''#test'', ircOptions = None, discordId = Some ''42'',
       discordToken = Some ''secret'', commandCharacters = [], channels = [],
       ircStatusNotices = True, announceSelfJoin = False, autoSendCommands = [],
       channelUsers = \<lparr> properties = Map.empty, prototype = None \<rparr>,
       invertedMapping = None \<rparr>"

text \<open>A configuration without a server, and one whose channel is the empty string.\<close>

definition serverless_options :: options where
  "serverless_options = example_options \<lparr> options.ircServer := None \<rparr>"

definition channelless_options :: options where
  "channelless_options = example_options \<lparr> options.ircChannel := Some [] \<rparr>"

text \<open>The example bridge after the names event for Alice and Bob.\<close>

definition tracking_bot :: bot where
  "tracking_bot =
     example_bot \<lparr> channelUsers :=
       \<lparr> properties = [''#test'' \<mapsto> {''Alice'', ''Bob''}], prototype = None \<rparr> \<rparr>"

text \<open>The example bridge with \<open>ircOptions\<close> that override two connection defaults and add a port.\<close>

definition tuned_bot :: bot where
  "tuned_bot =
     example_bot \<lparr> ircOptions :=
       Some [(''retryCount'', JNum 3), (''port'', JNum 6697), (''floodProtection'', JBool False)] \<rparr>"

text \<open>The same bridge configured with the channel name in mixed case.\<close>

definition mixed_case_options :: options where
  "mixed_case_options = example_options \<lparr> options.ircChannel := Some ''#Test'' \<rparr>"

definition mixed_case_bot :: bot where
  "mixed_case_bot = example_bot \<lparr> ircChannel := Some ''#Test'' \<rparr>"

section \<open>Properties\<close>

subsection \<open>Observations and property reads\<close>

lemma observe_append: "observe (xs @ ys) = observe xs @ observe ys"
  by (induction xs rule: observe.induct) simp_all

lemma observe_sendExactToDiscord:
  "observe (sendExactToDiscord b channel text) =
     (if Some channel = ircChannel b then [Exact text] else [])"
  by (simp add: sendExactToDiscord_def)

lemma observe_sendToDiscord:
  "observe (sendToDiscord fmt b author channel text) =
     (if Some channel = ircChannel b then [Formatted author (fmt text)] else [])"
  by (simp add: sendToDiscord_def)

lemma get_property_own:
  "properties obj channel = Some users \<Longrightarrow> get_property obj channel = Members users"
  by (simp add: get_property_def)

lemma get_property_Members:
  "get_property obj channel = Members users \<Longrightarrow>
     properties obj channel = Some users
     \<or> (properties obj channel = None \<and> prototype obj = Some users \<and> channel = ''__proto__'')"
  by (auto simp: get_property_def split: option.splits if_splits)

lemma get_property_plain:
  "prototype obj = None \<Longrightarrow>
   get_property obj channel =
     (case properties obj channel of
        Some users \<Rightarrow> Members users
      | None \<Rightarrow> if channel \<in> set Object_prototype then Inherited else Undefined)"
  by (cases "properties obj channel") (simp_all add: get_property_def)

subsection \<open>Invariants of the listeners\<close>

text \<open>Every listener leaves all fields but \<open>channelUsers\<close> as they are.\<close>

lemma same_bot: "\<exists>obj. b = b\<lparr>channelUsers := obj\<rparr>"
  by (rule exI [of _ "channelUsers b"]) simp

lemma quit_channel_config:
  "quit_channel toLowerCase b nick reason c = (es, r) \<Longrightarrow> \<exists>obj. after r = b\<lparr>channelUsers := obj\<rparr>"
  unfolding quit_channel_def Let_def
  by (cases "get_property (channelUsers b) (toLowerCase c)")
     (auto split: if_splits intro: same_bot)

lemma quit_channels_config:
  "quit_channels toLowerCase b nick reason cs = (es, r) \<Longrightarrow> \<exists>obj. after r = b\<lparr>channelUsers := obj\<rparr>"
proof (induction cs arbitrary: b es r)
  case Nil
  then show ?case by (auto intro: same_bot)
next
  case (Cons c cs)
  obtain es1 r1 where q: "quit_channel toLowerCase b nick reason c = (es1, r1)"
    by (cases "quit_channel toLowerCase b nick reason c")
  obtain obj1 where o1: "after r1 = b\<lparr>channelUsers := obj1\<rparr>"
    using quit_channel_config [OF q] by blast
  show ?case
  proof (cases r1)
    case (Threw e b1)
    with q Cons.prems have "r = r1" by simp
    with o1 show ?thesis by blast
  next
    case (Returned b1)
    obtain es2 r2 where s: "quit_channels toLowerCase b1 nick reason cs = (es2, r2)"
      by (cases "quit_channels toLowerCase b1 nick reason cs")
    obtain obj2 where o2: "after r2 = b1\<lparr>channelUsers := obj2\<rparr>"
      using Cons.IH [OF s] by blast
    have "r = r2" using Cons.prems q s Returned by simp
    moreover have "b1 = b\<lparr>channelUsers := obj1\<rparr>" using o1 Returned by simp
    ultimately have "after r = b\<lparr>channelUsers := obj2\<rparr>" using o2 by simp
    then show ?thesis by blast
  qed
qed

lemma on_join_config:
  "on_join toLowerCase b channelName nick = (es, r) \<Longrightarrow> \<exists>obj. after r = b\<lparr>channelUsers := obj\<rparr>"
  unfolding on_join_def Let_def
  by (cases "get_property (channelUsers b) (toLowerCase channelName)")
     (auto split: if_splits intro: same_bot)

lemma on_part_config:
  "on_part toLowerCase b channelName nick reason = (es, r) \<Longrightarrow> \<exists>obj. after r = b\<lparr>channelUsers := obj\<rparr>"
  unfolding on_part_def Let_def
  by (cases "get_property (channelUsers b) (toLowerCase channelName)")
     (auto split: if_splits intro: same_bot)

lemma on_names_config:
  "on_names toLowerCase b channelName nicks = (es, r) \<Longrightarrow> \<exists>obj. after r = b\<lparr>channelUsers := obj\<rparr>"
  unfolding on_names_def Let_def
  by (cases "set_property (channelUsers b) (toLowerCase channelName) (set (map fst nicks))")
     (auto split: if_splits intro: same_bot)

lemma on_invite_config:
  "on_invite b channel sender = (es, r) \<Longrightarrow> after r = b"
  unfolding on_invite_def Let_def
  by (cases "invertedMapping b") (auto split: if_splits)

lemma on_quit_config:
  assumes h: "on_quit toLowerCase b nick reason chans = (es, r)"
  shows "\<exists>obj. after r = b\<lparr>channelUsers := obj\<rparr>"
proof (cases "\<not> ircStatusNotices b \<or> Some nick = ircNickname b")
  case True
  with h have "after r = b" by (auto simp: on_quit_def)
  then show ?thesis using same_bot [of b] by simp
next
  case False
  obtain es2 r2 where q: "quit_channels toLowerCase b nick reason chans = (es2, r2)"
    by (cases "quit_channels toLowerCase b nick reason chans")
  with h False have "r = r2" by (simp add: on_quit_def)
  with quit_channels_config [OF q] show ?thesis by simp
qed

lemma handle_config:
  assumes h: "handle toLowerCase fmt b ev = (es, r)"
  shows "\<exists>obj. after r = b\<lparr>channelUsers := obj\<rparr>"
proof (cases ev)
  case (Join channelName nick)
  with h show ?thesis using on_join_config by simp
next
  case (Part channelName nick reason)
  with h show ?thesis using on_part_config by simp
next
  case (Quit nick reason chans)
  with h show ?thesis using on_quit_config by simp
next
  case (Names channelName nicks)
  with h show ?thesis using on_names_config by simp
next
  case (Invite channel sender)
  with h have "after r = b" using on_invite_config by simp
  then show ?thesis using same_bot [of b] by simp
qed (use h same_bot [of b] in auto)

text \<open>Only the target channel is ever a key of \<open>channelUsers\<close>.\<close>

lemma only_target_replace_members:
  assumes "only_target b" and "get_property (channelUsers b) channel = Members users"
  shows "only_target (b\<lparr>channelUsers := replace_members (channelUsers b) channel users'\<rparr>)"
proof -
  from get_property_Members [OF assms(2)] show ?thesis
  proof
    assume "properties (channelUsers b) channel = Some users"
    with assms(1) show ?thesis
      by (auto simp: only_target_def replace_members_def)
  next
    assume "properties (channelUsers b) channel = None \<and> prototype (channelUsers b) = Some users
            \<and> channel = ''__proto__''"
    with assms(1) show ?thesis
      by (auto simp: only_target_def replace_members_def)
  qed
qed

lemma quit_channel_only_target:
  assumes "only_target b" and "quit_channel toLowerCase b nick reason c = (es, r)"
  shows "only_target (after r)"
proof (cases "get_property (channelUsers b) (toLowerCase c)")
  case (Members users)
  with assms only_target_replace_members [OF assms(1) Members] show ?thesis
    by (auto simp: quit_channel_def Let_def split: if_splits)
qed (use assms in \<open>auto simp: quit_channel_def Let_def\<close>)

lemma quit_channels_only_target:
  "only_target b \<Longrightarrow> quit_channels toLowerCase b nick reason cs = (es, r) \<Longrightarrow> only_target (after r)"
proof (induction cs arbitrary: b es r)
  case Nil
  then show ?case by auto
next
  case (Cons c cs)
  obtain es1 r1 where q: "quit_channel toLowerCase b nick reason c = (es1, r1)"
    by (cases "quit_channel toLowerCase b nick reason c")
  have 1: "only_target (after r1)" using Cons.prems(1) q by (rule quit_channel_only_target)
  show ?case
  proof (cases r1)
    case (Threw e b1)
    with q Cons.prems have "r = r1" by simp
    with 1 show ?thesis by simp
  next
    case (Returned b1)
    obtain es2 r2 where s: "quit_channels toLowerCase b1 nick reason cs = (es2, r2)"
      by (cases "quit_channels toLowerCase b1 nick reason cs")
    have "only_target b1" using 1 Returned by simp
    then have "only_target (after r2)" using s by (rule Cons.IH)
    moreover have "r = r2" using Cons.prems q s Returned by simp
    ultimately show ?thesis by simp
  qed
qed

lemma on_join_only_target:
  assumes "only_target b" and "on_join toLowerCase b channelName nick = (es, r)"
  shows "only_target (after r)"
proof (cases "get_property (channelUsers b) (toLowerCase channelName)")
  case (Members users)
  with assms only_target_replace_members [OF assms(1) Members] show ?thesis
    by (auto simp: on_join_def Let_def split: if_splits)
qed (use assms in \<open>auto simp: on_join_def Let_def split: if_splits\<close>)

lemma on_part_only_target:
  assumes "only_target b" and "on_part toLowerCase b channelName nick reason = (es, r)"
  shows "only_target (after r)"
proof -
  have d: "only_target (b\<lparr>channelUsers := delete_property (channelUsers b) (toLowerCase channelName)\<rparr>)"
    using assms(1) by (auto simp: only_target_def delete_property_def split: if_splits)
  show ?thesis
  proof (cases "get_property (channelUsers b) (toLowerCase channelName)")
    case (Members users)
    with assms d only_target_replace_members [OF assms(1) Members] show ?thesis
      by (auto simp: on_part_def Let_def split: if_splits)
  qed (use assms d in \<open>auto simp: on_part_def Let_def split: if_splits\<close>)
qed

lemma on_names_only_target:
  assumes "only_target b" and "on_names toLowerCase b channelName nicks = (es, r)"
  shows "only_target (after r)"
  using assms
  by (auto simp: on_names_def Let_def set_property_def only_target_def split: if_splits)

lemma on_quit_only_target:
  assumes "only_target b" and h: "on_quit toLowerCase b nick reason chans = (es, r)"
  shows "only_target (after r)"
proof (cases "\<not> ircStatusNotices b \<or> Some nick = ircNickname b")
  case True
  with h assms(1) show ?thesis by (auto simp: on_quit_def)
next
  case False
  obtain es2 r2 where q: "quit_channels toLowerCase b nick reason chans = (es2, r2)"
    by (cases "quit_channels toLowerCase b nick reason chans")
  with h False have "r = r2" by (simp add: on_quit_def)
  with quit_channels_only_target [OF assms(1) q] show ?thesis by simp
qed

lemma handle_only_target:
  assumes "only_target b" and h: "handle toLowerCase fmt b ev = (es, r)"
  shows "only_target (after r)"
proof (cases ev)
  case (Join channelName nick)
  with assms show ?thesis using on_join_only_target by simp
next
  case (Part channelName nick reason)
  with assms show ?thesis using on_part_only_target by simp
next
  case (Quit nick reason chans)
  with assms show ?thesis using on_quit_only_target by simp
next
  case (Names channelName nicks)
  with assms show ?thesis using on_names_only_target by simp
next
  case (Invite channel sender)
  with assms show ?thesis using on_invite_config [of b channel sender es r] by simp
qed (use assms in auto)

lemma run_invariant:
  "only_target b \<Longrightarrow> run toLowerCase fmt b evs = (es, r, b') \<Longrightarrow>
   only_target b' \<and> (\<exists>obj. b' = b\<lparr>channelUsers := obj\<rparr>)"
proof (induction evs arbitrary: b es r b')
  case Nil
  then show ?case using same_bot [of b] by simp
next
  case (Cons ev evs)
  obtain es1 r1 where p: "handle toLowerCase fmt b ev = (es1, r1)"
    by (cases "handle toLowerCase fmt b ev")
  have 1: "only_target (after r1)" using Cons.prems(1) p by (rule handle_only_target)
  obtain obj1 where o1: "after r1 = b\<lparr>channelUsers := obj1\<rparr>"
    using handle_config [OF p] by blast
  show ?case
  proof (cases r1)
    case (Threw e b1)
    with p Cons.prems(2) have "b' = b1" by simp
    with 1 o1 Threw show ?thesis by auto
  next
    case (Returned b1)
    obtain es2 r2 b2 where s: "run toLowerCase fmt b1 evs = (es2, r2, b2)"
      by (cases "run toLowerCase fmt b1 evs")
    have "only_target b1" using 1 Returned by simp
    from Cons.IH [OF this s] obtain obj2 where 2: "only_target b2" "b2 = b1\<lparr>channelUsers := obj2\<rparr>"
      by blast
    have "b' = b2" using Cons.prems(2) p s Returned by simp
    moreover have "b1 = b\<lparr>channelUsers := obj1\<rparr>" using o1 Returned by simp
    ultimately have "only_target b'" "b' = b\<lparr>channelUsers := obj2\<rparr>" using 2 by simp_all
    then show ?thesis by blast
  qed
qed

lemma reachable_invariant:
  assumes "reachable toLowerCase fmt opts evs b"
  shows "only_target b"
    and "ircChannel b = options.ircChannel opts"
    and "ircNickname b = options.ircNickname opts"
    and "ircStatusNotices b = options.ircStatusNotices opts"
    and "announceSelfJoin b = options.announceSelfJoin opts"
    and "invertedMapping b = None"
    and "truthy (ircChannel b)"
proof -
  from assms obtain es0 b0 where c: "constructor opts = (es0, Inr b0)"
    and r: "snd (snd (run toLowerCase fmt b0 evs)) = b"
    by (auto simp: reachable_def split: prod.splits sum.splits)
  from c have req: "check_required opts REQUIRED_FIELDS = None"
    by (auto simp: constructor_def split: option.splits)
  from c have b0: "channelUsers b0 = \<lparr> properties = Map.empty, prototype = None \<rparr>"
    "ircChannel b0 = options.ircChannel opts"
    "ircNickname b0 = options.ircNickname opts" "ircStatusNotices b0 = options.ircStatusNotices opts"
    "announceSelfJoin b0 = options.announceSelfJoin opts" "invertedMapping b0 = None"
    by (auto simp: constructor_def split: option.splits)
  have t: "truthy (options.ircChannel opts)"
    using req by (simp add: REQUIRED_FIELDS_def field_def split: if_splits)
  have "only_target b0" using b0 by (simp add: only_target_def)
  moreover obtain es r' where "run toLowerCase fmt b0 evs = (es, r', b)"
    using r by (cases "run toLowerCase fmt b0 evs") auto
  ultimately obtain obj where i: "only_target b" "b = b0\<lparr>channelUsers := obj\<rparr>"
    using run_invariant by blast
  show "only_target b" by fact
  show c: "ircChannel b = options.ircChannel opts" using i(2) b0 by simp
  show "ircNickname b = options.ircNickname opts" using i(2) b0 by simp
  show "ircStatusNotices b = options.ircStatusNotices opts" using i(2) b0 by simp
  show "announceSelfJoin b = options.announceSelfJoin opts" using i(2) b0 by simp
  show "invertedMapping b = None" using i(2) b0 by simp
  show "truthy (ircChannel b)" using t c by simp
qed

subsection \<open>The example bridges\<close>

lemma ascii_test: "ascii_toLowerCase ''#test'' = ''#test''" by code_simp
lemma ascii_TEST: "ascii_toLowerCase ''#TEST'' = ''#test''" by code_simp
lemma ascii_Test: "ascii_toLowerCase ''#Test'' = ''#test''" by code_simp

lemma constructor_example:
  "constructor example_options = ([NewWebhookClient (Some ''42'') (Some ''secret'')], Inr example_bot)"
  by (simp add: constructor_def example_options_def example_bot_def REQUIRED_FIELDS_def field_def
      truthy_def or_empty_def lodash_values_def)

lemma constructor_mixed_case:
  "constructor mixed_case_options =
     ([NewWebhookClient (Some ''42'') (Some ''secret'')], Inr mixed_case_bot)"
  by (simp add: constructor_def mixed_case_options_def mixed_case_bot_def example_options_def
      example_bot_def REQUIRED_FIELDS_def field_def truthy_def or_empty_def lodash_values_def)

lemma reachable_example: "reachable toLowerCase fmt example_options [] example_bot"
  by (simp add: reachable_def constructor_example)

lemma names_example:
  "toLowerCase c = ''#test'' \<Longrightarrow>
   handle toLowerCase fmt example_bot (Names c [(''Alice'', []), (''Bob'', ''@'')]) =
     ([Log LDebug [Str ''Received names:'', Str c, Nicks [(''Alice'', []), (''Bob'', ''@'')]]],
      Returned tracking_bot)"
  by (simp add: on_names_def set_property_def example_bot_def tracking_bot_def Let_def)

lemma reachable_tracking:
  "toLowerCase c = ''#test'' \<Longrightarrow>
   reachable toLowerCase fmt example_options [Names c [(''Alice'', []), (''Bob'', ''@'')]]
     tracking_bot"
  by (simp add: reachable_def constructor_example names_example del: handle.simps)

subsection \<open>Construction\<close>

lemma falsy_iff: "\<not> truthy v \<longleftrightarrow> v = None \<or> v = Some []"
  by (simp add: truthy_def split: option.splits)

lemma check_required_find:
  "check_required opts fs =
     (case find (\<lambda>f. \<not> truthy (field opts f)) fs of
        None \<Rightarrow> None
      | Some f \<Rightarrow> Some (ConfigurationError (''Missing configuration field '' @ f)))"
  by (induction fs) simp_all

lemma find_only:
  "f \<in> set fs \<Longrightarrow> P f \<Longrightarrow> (\<forall>g\<in>set fs. g \<noteq> f \<longrightarrow> \<not> P g) \<Longrightarrow> find P fs = Some f"
  by (induction fs) auto

lemma find_some_exists:
  "f \<in> set fs \<Longrightarrow> P f \<Longrightarrow> \<exists>g. find P fs = Some g \<and> g \<in> set fs \<and> P g"
  by (induction fs) auto

lemma constructor_missing:
  assumes "find (\<lambda>f. \<not> truthy (field opts f)) REQUIRED_FIELDS = Some g"
  shows "constructor opts = ([], Inl (ConfigurationError (''Missing configuration field '' @ g)))"
  using assms by (simp add: constructor_def check_required_find)

lemma constructor_complete:
  assumes "\<forall>g\<in>set REQUIRED_FIELDS. truthy (field opts g)"
  shows "\<exists>b. constructor opts =
           ([NewWebhookClient (options.discordId opts) (options.discordToken opts)], Inr b)
         \<and> channelUsers b = \<lparr> properties = Map.empty, prototype = None \<rparr> \<and> ircChannel b = options.ircChannel opts"
proof -
  have "find (\<lambda>f. \<not> truthy (field opts f)) REQUIRED_FIELDS = None"
    using assms by (simp add: find_None_iff)
  then show ?thesis
    by (simp add: constructor_def check_required_find)
qed

text \<open>
  Claim C7. A configuration in which a required field (\<open>ircNickname\<close>, \<open>ircServer\<close>,
  \<open>ircChannel\<close>, \<open>discordId\<close>, \<open>discordToken\<close>) is absent or the empty string makes the
  constructor throw a \<open>ConfigurationError\<close> before anything is created: no webhook
  client, no IRC client. The message names the first such field in the order of
  \<open>REQUIRED_FIELDS\<close>, which is the field itself when it is the only one. With all five
  fields present the constructor returns a bot whose membership map is empty.
\<close>

theorem constructor_validates:
  "(f \<in> set REQUIRED_FIELDS \<and> (field opts f = None \<or> field opts f = Some []) \<longrightarrow>
      (\<exists>g. find (\<lambda>g. field opts g = None \<or> field opts g = Some []) REQUIRED_FIELDS = Some g
          \<and> constructor opts = ([], Inl (ConfigurationError (''Missing configuration field '' @ g)))))
   \<and> (f \<in> set REQUIRED_FIELDS \<and> (field opts f = None \<or> field opts f = Some [])
        \<and> (\<forall>g\<in>set REQUIRED_FIELDS. g \<noteq> f \<longrightarrow> field opts g \<noteq> None \<and> field opts g \<noteq> Some []) \<longrightarrow>
      constructor opts = ([], Inl (ConfigurationError (''Missing configuration field '' @ f))))
   \<and> ((\<forall>g\<in>set REQUIRED_FIELDS. field opts g \<noteq> None \<and> field opts g \<noteq> Some []) \<longrightarrow>
      (\<exists>b. constructor opts =
              ([NewWebhookClient (options.discordId opts) (options.discordToken opts)], Inr b)
          \<and> channelUsers b = \<lparr> properties = Map.empty, prototype = None \<rparr>))"
proof (intro conjI impI)
  assume a: "f \<in> set REQUIRED_FIELDS \<and> (field opts f = None \<or> field opts f = Some [])"
  then obtain g where "find (\<lambda>f. \<not> truthy (field opts f)) REQUIRED_FIELDS = Some g"
    using find_some_exists [of f REQUIRED_FIELDS "\<lambda>f. \<not> truthy (field opts f)"]
    by (auto simp: falsy_iff)
  then show "\<exists>g. find (\<lambda>g. field opts g = None \<or> field opts g = Some []) REQUIRED_FIELDS = Some g
          \<and> constructor opts = ([], Inl (ConfigurationError (''Missing configuration field '' @ g)))"
    using constructor_missing [of opts g] by (auto simp: falsy_iff)
next
  assume a: "f \<in> set REQUIRED_FIELDS \<and> (field opts f = None \<or> field opts f = Some [])
        \<and> (\<forall>g\<in>set REQUIRED_FIELDS. g \<noteq> f \<longrightarrow> field opts g \<noteq> None \<and> field opts g \<noteq> Some [])"
  then have "find (\<lambda>f. \<not> truthy (field opts f)) REQUIRED_FIELDS = Some f"
    by (intro find_only) (auto simp: falsy_iff)
  then show "constructor opts = ([], Inl (ConfigurationError (''Missing configuration field '' @ f)))"
    by (rule constructor_missing)
next
  assume "\<forall>g\<in>set REQUIRED_FIELDS. field opts g \<noteq> None \<and> field opts g \<noteq> Some []"
  then have "\<forall>g\<in>set REQUIRED_FIELDS. truthy (field opts g)"
    using falsy_iff by blast
  from constructor_complete [OF this]
  show "\<exists>b. constructor opts =
              ([NewWebhookClient (options.discordId opts) (options.discordToken opts)], Inr b)
          \<and> channelUsers b = \<lparr> properties = Map.empty, prototype = None \<rparr>"
    by blast
qed


theorem constructor_validates_witness:
  "field serverless_options ''ircServer'' = None
   \<and> field serverless_options ''ircNickname'' = Some ''bridge''
   \<and> field serverless_options ''ircChannel'' = Some ''#test''
   \<and> field serverless_options ''discordId'' = Some ''42''
   \<and> field serverless_options ''discordToken'' = Some ''secret''
   \<and> constructor serverless_options =
        ([], Inl (ConfigurationError ''Missing configuration field ircServer''))
   \<and> field channelless_options ''ircChannel'' = Some []
   \<and> constructor channelless_options =
        ([], Inl (ConfigurationError ''Missing configuration field ircChannel''))
   \<and> field example_options ''ircServer'' = Some ''irc.example.org''
   \<and> constructor example_options =
        ([NewWebhookClient (Some ''42'') (Some ''secret'')], Inr example_bot)
   \<and> channelUsers example_bot = \<lparr> properties = Map.empty, prototype = None \<rparr>"
  using constructor_validates [of "''ircServer''" serverless_options]
    constructor_validates [of "''ircChannel''" channelless_options]
    constructor_validates [of "''ircServer''" example_options]
  by (simp add: serverless_options_def channelless_options_def example_options_def example_bot_def
      REQUIRED_FIELDS_def field_def constructor_def truthy_def or_empty_def lodash_values_def)

subsection \<open>Connection options\<close>

lemma map_of_set_prop: "map_of (set_prop ps k v) = (map_of ps)(k \<mapsto> v)"
  by (induction ps k v rule: set_prop.induct) auto

lemma keys_set_prop: "set (map fst (set_prop ps k v)) = insert k (set (map fst ps))"
  by (induction ps k v rule: set_prop.induct) auto

lemma distinct_set_prop: "distinct (map fst ps) \<Longrightarrow> distinct (map fst (set_prop ps k v))"
proof (induction ps k v rule: set_prop.induct)
  case (1 k v)
  then show ?case by simp
next
  case (2 k' v' ps k v)
  then show ?case using keys_set_prop [of ps k v] by auto
qed

lemma distinct_spread: "distinct (map fst ps) \<Longrightarrow> distinct (map fst (spread ps extra))"
  by (induction ps extra rule: spread.induct) (simp_all add: distinct_set_prop)

lemma map_of_spread:
  "distinct (map fst extra) \<Longrightarrow>
   map_of (spread ps extra) k = (case map_of extra k of Some v \<Rightarrow> Some v | None \<Rightarrow> map_of ps k)"
proof (induction ps extra rule: spread.induct)
  case (1 ps)
  then show ?case by simp
next
  case (2 ps k' v' extra)
  then have "map_of extra k' = None"
    by (simp add: map_of_eq_None_iff image_iff) 
  with 2 show ?case
    by (auto simp: map_of_set_prop split: option.splits)
qed

text \<open>
  Claim C8. \<open>connect\<close> creates the IRC client with the resolved options. Without
  caller-supplied \<open>ircOptions\<close> these are the defaults: flood protection on, a delay of
  500, a retry count of 10, auto-join of exactly the configured channel. With
  \<open>ircOptions\<close>, every option the caller supplies has the caller's value in the
  resolved options, and every default the caller does not mention keeps its value.
\<close>

theorem connect_ircOptions:
  "fst (connect logger_level b) =
     [Log LDebug [Str ''Connecting to IRC and Discord''],
      NewIrcClient (ircServer b) (ircNickname b) (resolved_ircOptions b)]
   \<and> (ircOptions b = None \<longrightarrow>
        resolved_ircOptions b =
          [(''userName'', js (ircNickname b)), (''realName'', js (ircNickname b)),
           (''channels'', JArr [js (ircChannel b)]), (''floodProtection'', JBool True),
           (''floodProtectionDelay'', JNum 500), (''retryCount'', JNum 10)])
   \<and> (\<forall>extra. ircOptions b = Some extra \<and> distinct (map fst extra) \<longrightarrow>
        distinct (map fst (resolved_ircOptions b))
        \<and> (\<forall>k v. map_of extra k = Some v \<longrightarrow> map_of (resolved_ircOptions b) k = Some v)
        \<and> (map_of extra ''floodProtection'' = None \<longrightarrow>
             map_of (resolved_ircOptions b) ''floodProtection'' = Some (JBool True))
        \<and> (map_of extra ''floodProtectionDelay'' = None \<longrightarrow>
             map_of (resolved_ircOptions b) ''floodProtectionDelay'' = Some (JNum 500))
        \<and> (map_of extra ''retryCount'' = None \<longrightarrow>
             map_of (resolved_ircOptions b) ''retryCount'' = Some (JNum 10))
        \<and> (map_of extra ''channels'' = None \<longrightarrow>
             map_of (resolved_ircOptions b) ''channels'' = Some (JArr [js (ircChannel b)])))"
proof (intro conjI allI impI)
  show "fst (connect logger_level b) =
     [Log LDebug [Str ''Connecting to IRC and Discord''],
      NewIrcClient (ircServer b) (ircNickname b) (resolved_ircOptions b)]"
    by (simp add: connect_def)
next
  assume "ircOptions b = None"
  then show "resolved_ircOptions b =
          [(''userName'', js (ircNickname b)), (''realName'', js (ircNickname b)),
           (''channels'', JArr [js (ircChannel b)]), (''floodProtection'', JBool True),
           (''floodProtectionDelay'', JNum 500), (''retryCount'', JNum 10)]"
    by (simp add: resolved_ircOptions_def default_ircOptions_def)
next
  fix extra
  assume a: "ircOptions b = Some extra \<and> distinct (map fst extra)"
  then have r: "resolved_ircOptions b = spread (default_ircOptions b) extra"
    by (simp add: resolved_ircOptions_def)
  have d: "distinct (map fst (default_ircOptions b))"
    by (simp add: default_ircOptions_def)
  show "distinct (map fst (resolved_ircOptions b))"
    unfolding r using d by (rule distinct_spread)
  { fix k v assume "map_of extra k = Some v"
    then show "map_of (resolved_ircOptions b) k = Some v"
      using a by (simp add: r map_of_spread) }
  { assume "map_of extra ''floodProtection'' = None"
    then show "map_of (resolved_ircOptions b) ''floodProtection'' = Some (JBool True)"
      using a by (simp add: r map_of_spread default_ircOptions_def) }
  { assume "map_of extra ''floodProtectionDelay'' = None"
    then show "map_of (resolved_ircOptions b) ''floodProtectionDelay'' = Some (JNum 500)"
      using a by (simp add: r map_of_spread default_ircOptions_def) }
  { assume "map_of extra ''retryCount'' = None"
    then show "map_of (resolved_ircOptions b) ''retryCount'' = Some (JNum 10)"
      using a by (simp add: r map_of_spread default_ircOptions_def) }
  { assume "map_of extra ''channels'' = None"
    then show "map_of (resolved_ircOptions b) ''channels'' = Some (JArr [js (ircChannel b)])"
      using a by (simp add: r map_of_spread default_ircOptions_def) }
qed

theorem connect_ircOptions_witness:
  "ircOptions tuned_bot =
     Some [(''retryCount'', JNum 3), (''port'', JNum 6697), (''floodProtection'', JBool False)]
   \<and> distinct (map fst [(''retryCount'', JNum 3), (''port'', JNum 6697), (''floodProtection'', JBool False)])
   \<and> resolved_ircOptions tuned_bot =
       [(''userName'', JStr ''bridge''), (''realName'', JStr ''bridge''),
        (''channels'', JArr [JStr ''#test'']), (''floodProtection'', JBool False),
        (''floodProtectionDelay'', JNum 500), (''retryCount'', JNum 3), (''port'', JNum 6697)]
   \<and> ircOptions example_bot = None
   \<and> resolved_ircOptions example_bot =
       [(''userName'', JStr ''bridge''), (''realName'', JStr ''bridge''),
        (''channels'', JArr [JStr ''#test'']), (''floodProtection'', JBool True),
        (''floodProtectionDelay'', JNum 500), (''retryCount'', JNum 10)]"
  using connect_ircOptions [where b = tuned_bot] connect_ircOptions [where b = example_bot]
  by (simp add: tuned_bot_def example_bot_def resolved_ircOptions_def default_ircOptions_def js_def)

subsection \<open>Keys of the membership map\<close>

text \<open>
  Claim C9. Whatever events have been delivered to a bridge built from \<open>opts\<close>, a
  channel name under which \<open>channelUsers\<close> holds a membership set, as an own property
  or as what a read finds, is the configured \<open>ircChannel\<close>, character for character.
\<close>

theorem membership_keys:
  assumes "reachable toLowerCase fmt opts evs b"
    and "get_property (channelUsers b) k = Members users
         \<or> properties (channelUsers b) k = Some users"
  shows "options.ircChannel opts = Some k \<and> ircChannel b = Some k"
proof -
  have inv: "only_target b" using assms(1) by (rule reachable_invariant)
  have "get_property (channelUsers b) k = Members users"
    using assms(2) get_property_own by blast
  from get_property_Members [OF this] have "ircChannel b = Some k"
    using inv by (auto simp: only_target_def)
  moreover have "ircChannel b = options.ircChannel opts"
    using assms(1) by (rule reachable_invariant)
  ultimately show ?thesis by simp
qed

theorem membership_keys_witness:
  "reachable ascii_toLowerCase (\<lambda>t. t) example_options
     [Names ''#TEST'' [(''Alice'', []), (''Bob'', ''@'')]] tracking_bot
   \<and> properties (channelUsers tracking_bot) ''#test'' = Some {''Alice'', ''Bob''}
   \<and> get_property (channelUsers tracking_bot) ''#test'' = Members {''Alice'', ''Bob''}
   \<and> options.ircChannel example_options = Some ''#test''
   \<and> ircChannel tracking_bot = Some ''#test''"
proof -
  have r: "reachable ascii_toLowerCase (\<lambda>t. t) example_options
     [Names ''#TEST'' [(''Alice'', []), (''Bob'', ''@'')]] tracking_bot"
    using ascii_TEST by (rule reachable_tracking [where toLowerCase = ascii_toLowerCase])
  have c: "properties (channelUsers tracking_bot) ''#test'' = Some {''Alice'', ''Bob''}"
    by (simp add: tracking_bot_def)
  then have g: "get_property (channelUsers tracking_bot) ''#test'' = Members {''Alice'', ''Bob''}"
    by (rule get_property_own)
  from membership_keys [OF r disjI1 [OF g]] r c g show ?thesis by simp
qed

subsection \<open>Events that leave the membership map alone\<close>

text \<open>
  Claim C10. Handling a message, notice, action, registered or error event returns the
  bot unchanged, so in particular its membership map. An event after which the
  membership map differs, whether the listener returned or threw, is a join, part, quit
  or names event.
\<close>

theorem membership_frame:
  "(ev = Message author to text \<or> ev = Notice author to text \<or> ev = Action author to text
      \<or> ev = Registered message \<or> ev = ErrorEvent err \<longrightarrow>
      snd (handle toLowerCase fmt b ev) = Returned b
      \<and> snd (snd (run toLowerCase fmt b [ev])) = b)
   \<and> (\<forall>es r. handle toLowerCase fmt b ev = (es, r) \<and> channelUsers (after r) \<noteq> channelUsers b
        \<longrightarrow> membership_event ev)"
proof (rule conjI)
  show "ev = Message author to text \<or> ev = Notice author to text \<or> ev = Action author to text
      \<or> ev = Registered message \<or> ev = ErrorEvent err \<longrightarrow>
      snd (handle toLowerCase fmt b ev) = Returned b
      \<and> snd (snd (run toLowerCase fmt b [ev])) = b"
    by auto
next
  show "\<forall>es r. handle toLowerCase fmt b ev = (es, r) \<and> channelUsers (after r) \<noteq> channelUsers b
        \<longrightarrow> membership_event ev"
  proof (cases ev)
    case (Invite channel sender)
    then show ?thesis using on_invite_config [of b channel sender] by auto
  qed auto
qed

theorem membership_frame_witness:
  "snd (handle ascii_toLowerCase (\<lambda>t. t) tracking_bot (Message ''Bob'' ''#test'' ''hi''))
     = Returned tracking_bot
   \<and> snd (snd (run ascii_toLowerCase (\<lambda>t. t) tracking_bot [Message ''Bob'' ''#test'' ''hi'']))
     = tracking_bot
   \<and> handle ascii_toLowerCase (\<lambda>t. t) example_bot
        (Names ''#TEST'' [(''Alice'', []), (''Bob'', ''@'')]) =
       ([Log LDebug [Str ''Received names:'', Str ''#TEST'', Nicks [(''Alice'', []), (''Bob'', ''@'')]]],
        Returned tracking_bot)
   \<and> channelUsers tracking_bot \<noteq> channelUsers example_bot
   \<and> membership_event (Names ''#TEST'' [(''Alice'', []), (''Bob'', ''@'')])"
proof -
  have "properties (channelUsers tracking_bot) ''#test'' \<noteq> properties (channelUsers example_bot) ''#test''"
    by (simp add: tracking_bot_def example_bot_def)
  then have n: "channelUsers tracking_bot \<noteq> channelUsers example_bot"
    by auto
  from membership_frame [of "Message ''Bob'' ''#test'' ''hi''" "''Bob''" "''#test''" "''hi''" _ _
      ascii_toLowerCase "\<lambda>t. t" tracking_bot]
    membership_frame [of "Names ''#TEST'' [(''Alice'', []), (''Bob'', ''@'')]" _ _ _ _ _
      ascii_toLowerCase "\<lambda>t. t" example_bot]
    names_example [where toLowerCase = ascii_toLowerCase and fmt = "\<lambda>t. t" and c = "''#TEST''",
      OF ascii_TEST] n
  show ?thesis by (simp del: handle.simps run.simps)
qed

subsection \<open>Invite\<close>

text \<open>
  Claim C3. In every state the bridge can reach, an invite that names the target
  channel makes the listener throw right after its debug line: it reads
  \<open>invertedMapping\<close>, which is still \<^verbatim>\<open>undefined\<close>. No join request is issued and no
  "not found" line is logged.
\<close>

theorem invite_throws:
  assumes "reachable toLowerCase fmt opts evs b" and "ircChannel b = Some channel"
  shows "handle toLowerCase fmt b (Invite channel sender) =
           ([Log LDebug [Str ''Received invite:'', Str channel, Str sender]],
            Threw (TypeError ''this.invertedMapping'') b)"
proof -
  have "invertedMapping b = None" using assms(1) by (rule reachable_invariant)
  then show ?thesis using assms(2) by (simp add: on_invite_def)
qed

theorem invite_throws_witness:
  "reachable ascii_toLowerCase (\<lambda>t. t) example_options [] example_bot
   \<and> ircChannel example_bot = Some ''#test''
   \<and> handle ascii_toLowerCase (\<lambda>t. t) example_bot (Invite ''#test'' ''Alice'') =
        ([Log LDebug [Str ''Received invite:'', Str ''#test'', Str ''Alice'']],
         Threw (TypeError ''this.invertedMapping'') example_bot)"
proof -
  have r: "reachable ascii_toLowerCase (\<lambda>t. t) example_options [] example_bot"
    by (rule reachable_example)
  have c: "ircChannel example_bot = Some ''#test''" by (simp add: example_bot_def)
  from invite_throws [OF r c] r c show ?thesis by simp
qed

subsection \<open>Join\<close>

text \<open>
  Claim C2. With status notices on, the join of another nick on the target channel
  while the read of \<open>channelUsers\<close> finds no membership set throws after the debug line
  and leaves the bot as it was. When what the read finds is \<^verbatim>\<open>undefined\<close>, the error is
  the \<open>TypeError\<close> of calling \<^verbatim>\<open>add\<close> on it, whereas in the same state a part returns
  normally after a warning and the relay, and a quit returns normally after a warning.
\<close>

theorem join_untracked_throws:
  assumes "ircChannel b = Some (toLowerCase channelName)" and "ircStatusNotices b"
    and "Some nick \<noteq> ircNickname b"
    and "\<forall>users. get_property (channelUsers b) (toLowerCase channelName) \<noteq> Members users"
  shows "fst (handle toLowerCase fmt b (Join channelName nick))
           = [Log LDebug [Str ''Received join:'', Str channelName, Str nick]]
       \<and> thrown (snd (handle toLowerCase fmt b (Join channelName nick))) \<noteq> None
       \<and> after (snd (handle toLowerCase fmt b (Join channelName nick))) = b
       \<and> (get_property (channelUsers b) (toLowerCase channelName) = Undefined \<longrightarrow>
            handle toLowerCase fmt b (Join channelName nick) =
              ([Log LDebug [Str ''Received join:'', Str channelName, Str nick]],
               Threw (TypeError ''this.channelUsers[channel]'') b)
          \<and> snd (handle toLowerCase fmt b (Part channelName nick reason)) = Returned b
          \<and> observe (fst (handle toLowerCase fmt b (Part channelName nick reason))) =
              [Warning, Exact (''*'' @ nick @ ''* has left the channel ('' @ reason @ '')'')]
          \<and> snd (handle toLowerCase fmt b (Quit nick reason [channelName])) = Returned b
          \<and> observe (fst (handle toLowerCase fmt b (Quit nick reason [channelName]))) = [Warning])"
proof (cases "get_property (channelUsers b) (toLowerCase channelName)")
  case Undefined
  with assms(1-3) show ?thesis
    by (simp add: on_join_def on_part_def on_quit_def quit_channel_def Let_def
        observe_sendExactToDiscord)
next
  case (Members users)
  with assms(4) show ?thesis by simp
next
  case Inherited
  with assms(1-3) show ?thesis by (simp add: on_join_def Let_def)
next
  case Refused
  with assms(1-3) show ?thesis by (simp add: on_join_def Let_def)
qed

theorem join_untracked_throws_witness:
  "ircChannel example_bot = Some (ascii_toLowerCase ''#test'') \<and> ircStatusNotices example_bot
   \<and> Some ''Alice'' \<noteq> ircNickname example_bot
   \<and> get_property (channelUsers example_bot) (ascii_toLowerCase ''#test'') = Undefined
   \<and> handle ascii_toLowerCase (\<lambda>t. t) example_bot (Join ''#test'' ''Alice'') =
        ([Log LDebug [Str ''Received join:'', Str ''#test'', Str ''Alice'']],
         Threw (TypeError ''this.channelUsers[channel]'') example_bot)
   \<and> snd (handle ascii_toLowerCase (\<lambda>t. t) example_bot (Part ''#test'' ''Alice'' ''bye''))
       = Returned example_bot
   \<and> observe (fst (handle ascii_toLowerCase (\<lambda>t. t) example_bot (Part ''#test'' ''Alice'' ''bye''))) =
        [Warning, Exact ''*Alice* has left the channel (bye)'']
   \<and> snd (handle ascii_toLowerCase (\<lambda>t. t) example_bot (Quit ''Alice'' ''bye'' [''#test'']))
       = Returned example_bot
   \<and> observe (fst (handle ascii_toLowerCase (\<lambda>t. t) example_bot (Quit ''Alice'' ''bye'' [''#test''])))
       = [Warning]"
proof -
  have h: "ircChannel example_bot = Some (ascii_toLowerCase ''#test'')" "ircStatusNotices example_bot"
    "Some ''Alice'' \<noteq> ircNickname example_bot"
    by (simp_all add: example_bot_def ascii_test)
  have u: "get_property (channelUsers example_bot) (ascii_toLowerCase ''#test'') = Undefined"
    by (simp add: example_bot_def ascii_test get_property_def Object_prototype_def)
  then have n: "\<forall>users. get_property (channelUsers example_bot) (ascii_toLowerCase ''#test'')
                  \<noteq> Members users"
    by simp
  from join_untracked_throws [where toLowerCase = ascii_toLowerCase and fmt = "\<lambda>t. t"
      and reason = "''bye''", OF h n] h u show ?thesis
    by (simp del: handle.simps)
qed

text \<open>
  The join listener where it does not throw: with a membership set the nick is added
  and the join relayed verbatim; the bridge's own join is never added and is relayed
  only under \<open>announceSelfJoin\<close>.
\<close>

lemma join_tracked:
  assumes "ircChannel b = Some (toLowerCase channelName)" and "ircStatusNotices b"
    and "get_property (channelUsers b) (toLowerCase channelName) = Members users"
    and "Some nick \<noteq> ircNickname b"
  shows "handle toLowerCase fmt b (Join channelName nick) =
           ([Log LDebug [Str ''Received join:'', Str channelName, Str nick],
             Log LDebug [Str ''Sending special message to Discord'',
                         Str (''*'' @ nick @ ''* has joined the channel''), Str (toLowerCase channelName)],
             SendMessage (''*'' @ nick @ ''* has joined the channel'') None],
            Returned (b\<lparr>channelUsers :=
               replace_members (channelUsers b) (toLowerCase channelName) (insert nick users)\<rparr>))"
    and "get_property
           (replace_members (channelUsers b) (toLowerCase channelName) (insert nick users))
           (toLowerCase channelName) = Members (insert nick users)"
proof -
  show "handle toLowerCase fmt b (Join channelName nick) =
           ([Log LDebug [Str ''Received join:'', Str channelName, Str nick],
             Log LDebug [Str ''Sending special message to Discord'',
                         Str (''*'' @ nick @ ''* has joined the channel''), Str (toLowerCase channelName)],
             SendMessage (''*'' @ nick @ ''* has joined the channel'') None],
            Returned (b\<lparr>channelUsers :=
               replace_members (channelUsers b) (toLowerCase channelName) (insert nick users)\<rparr>))"
    using assms by (simp add: on_join_def Let_def sendExactToDiscord_def)
  from get_property_Members [OF assms(3)]
  show "get_property
           (replace_members (channelUsers b) (toLowerCase channelName) (insert nick users))
           (toLowerCase channelName) = Members (insert nick users)"
    by (auto simp: replace_members_def get_property_def)
qed

lemma join_self:
  assumes "ircChannel b = Some (toLowerCase channelName)" and "ircStatusNotices b"
    and "Some nick = ircNickname b"
  shows "snd (handle toLowerCase fmt b (Join channelName nick)) = Returned b"
    and "observe (fst (handle toLowerCase fmt b (Join channelName nick))) =
           (if announceSelfJoin b then [Exact (''*'' @ nick @ ''* has joined the channel'')] else [])"
  using assms by (simp_all add: on_join_def Let_def observe_sendExactToDiscord)

text \<open>
  Claim C4. Whatever the lower-casing, as long as it leaves \<open>#test\<close> as it is: on the
  example bridge as constructed, with status notices on and before any names event, the
  join of Alice on the target channel throws after the debug line. Nothing is relayed,
  and the run ends with the bot as constructed, in which Alice is in no membership set.
\<close>

theorem join_before_names:
  assumes "toLowerCase ''#test'' = ''#test''"
  shows "reachable toLowerCase fmt example_options [] example_bot
   \<and> handle toLowerCase fmt example_bot (Join ''#test'' ''Alice'') =
        ([Log LDebug [Str ''Received join:'', Str ''#test'', Str ''Alice'']],
         Threw (TypeError ''this.channelUsers[channel]'') example_bot)
   \<and> run toLowerCase fmt example_bot [Join ''#test'' ''Alice''] =
        ([Log LDebug [Str ''Received join:'', Str ''#test'', Str ''Alice'']],
         Some (TypeError ''this.channelUsers[channel]''), example_bot)"
proof -
  have "handle toLowerCase fmt example_bot (Join ''#test'' ''Alice'') =
        ([Log LDebug [Str ''Received join:'', Str ''#test'', Str ''Alice'']],
         Threw (TypeError ''this.channelUsers[channel]'') example_bot)"
    using assms
    by (simp add: on_join_def example_bot_def get_property_def Object_prototype_def Let_def)
  then show ?thesis using reachable_example by (simp del: handle.simps)
qed

theorem join_before_names_witness:
  "ascii_toLowerCase ''#test'' = ''#test''
   \<and> reachable ascii_toLowerCase (\<lambda>t. t) example_options [] example_bot
   \<and> handle ascii_toLowerCase (\<lambda>t. t) example_bot (Join ''#test'' ''Alice'') =
        ([Log LDebug [Str ''Received join:'', Str ''#test'', Str ''Alice'']],
         Threw (TypeError ''this.channelUsers[channel]'') example_bot)
   \<and> run ascii_toLowerCase (\<lambda>t. t) example_bot [Join ''#test'' ''Alice''] =
        ([Log LDebug [Str ''Received join:'', Str ''#test'', Str ''Alice'']],
         Some (TypeError ''this.channelUsers[channel]''), example_bot)"
  using join_before_names [where toLowerCase = ascii_toLowerCase and fmt = "\<lambda>t. t", OF ascii_test]
    ascii_test
  by (simp del: handle.simps run.simps)

subsection \<open>Part\<close>

text \<open>
  The part listener on a bridge whose stored target channel is what the event's channel
  lower-cases to: the bridge's own part deletes the channel's property and relays
  nothing; the part of another nick relays \<open>*nick* has left the channel (reason)\<close>
  verbatim once, after removing the nick from the set, or after a warning when the
  read finds \<^verbatim>\<open>undefined\<close>.
\<close>

lemma part_policy:
  assumes "ircChannel b = Some (toLowerCase channelName)" and "ircStatusNotices b"
  shows "Some nick = ircNickname b \<Longrightarrow>
           snd (on_part toLowerCase b channelName nick reason)
             = Returned (b\<lparr>channelUsers := delete_property (channelUsers b) (toLowerCase channelName)\<rparr>)
           \<and> observe (fst (on_part toLowerCase b channelName nick reason)) = []"
    and "Some nick \<noteq> ircNickname b \<Longrightarrow>
         get_property (channelUsers b) (toLowerCase channelName) = Members users \<Longrightarrow>
           snd (on_part toLowerCase b channelName nick reason)
             = Returned (b\<lparr>channelUsers :=
                 replace_members (channelUsers b) (toLowerCase channelName) (users - {nick})\<rparr>)
           \<and> observe (fst (on_part toLowerCase b channelName nick reason))
               = [Exact (''*'' @ nick @ ''* has left the channel ('' @ reason @ '')'')]"
    and "Some nick \<noteq> ircNickname b \<Longrightarrow>
         get_property (channelUsers b) (toLowerCase channelName) = Undefined \<Longrightarrow>
           snd (on_part toLowerCase b channelName nick reason) = Returned b
           \<and> observe (fst (on_part toLowerCase b channelName nick reason))
               = [Warning, Exact (''*'' @ nick @ ''* has left the channel ('' @ reason @ '')'')]"
  using assms by (simp_all add: on_part_def Let_def observe_sendExactToDiscord)

text \<open>
  Claim C6. The constructor stores \<open>ircChannel\<close> as configured, and the part listener
  compares it with the lower-cased channel of the event. On a bridge configured for
  \<open>#Test\<close>, in every state it can reach and whoever parts, a part on \<open>#Test\<close> is
  therefore dropped at the channel test although status notices are on: nothing is
  relayed, nothing is warned, the bot is unchanged. Names and join events on \<open>#Test\<close>
  are dropped in the same way.
\<close>

theorem part_on_mixed_case_target:
  assumes "toLowerCase ''#Test'' = ''#test''"
    and "reachable toLowerCase fmt mixed_case_options evs b"
  shows "ircChannel b = Some ''#Test'' \<and> ircStatusNotices b
       \<and> handle toLowerCase fmt b (Part ''#Test'' nick reason) = ([], Returned b)
       \<and> handle toLowerCase fmt b (Names ''#Test'' nicks) = ([], Returned b)
       \<and> handle toLowerCase fmt b (Join ''#Test'' nick) = ([], Returned b)"
proof -
  have c: "ircChannel b = Some ''#Test''"
    using reachable_invariant(2) [OF assms(2)] by (simp add: mixed_case_options_def)
  have n: "ircStatusNotices b"
    using reachable_invariant(4) [OF assms(2)]
    by (simp add: mixed_case_options_def example_options_def)
  show ?thesis
    using c n assms(1) by (simp add: on_part_def on_names_def on_join_def Let_def)
qed

theorem part_on_mixed_case_target_witness:
  "ascii_toLowerCase ''#Test'' = ''#test''
   \<and> reachable ascii_toLowerCase (\<lambda>t. t) mixed_case_options [] mixed_case_bot
   \<and> ircChannel mixed_case_bot = Some ''#Test'' \<and> ircStatusNotices mixed_case_bot
   \<and> Some ''Alice'' \<noteq> ircNickname mixed_case_bot
   \<and> handle ascii_toLowerCase (\<lambda>t. t) mixed_case_bot (Part ''#Test'' ''Alice'' ''bye'')
       = ([], Returned mixed_case_bot)
   \<and> handle ascii_toLowerCase (\<lambda>t. t) mixed_case_bot (Names ''#Test'' [(''Alice'', []), (''Bob'', ''@'')])
       = ([], Returned mixed_case_bot)"
proof -
  have r: "reachable ascii_toLowerCase (\<lambda>t. t) mixed_case_options [] mixed_case_bot"
    by (simp add: reachable_def constructor_mixed_case)
  have a: "Some ''Alice'' \<noteq> ircNickname mixed_case_bot"
    by (simp add: mixed_case_bot_def example_bot_def)
  from part_on_mixed_case_target [where toLowerCase = ascii_toLowerCase, OF ascii_Test r,
      of "''Alice''" "''bye''" "[(''Alice'', []), (''Bob'', ''@'')]"] ascii_Test r a
  show ?thesis by (simp del: handle.simps)
qed

subsection \<open>Quit\<close>

text \<open>
  Where no channel of the quit lower-cases to a name that \<^verbatim>\<open>Object.prototype\<close> defines
  and the prototype is still \<^verbatim>\<open>Object.prototype\<close>, the loop of the quit listener does not
  throw, and what it logs, relays and leaves in the membership map is the
  specification's quit policy.
\<close>

lemma quit_channels_spec:
  assumes "only_target b" and "prototype (channelUsers b) = None"
    and "\<forall>c\<in>set cs. toLowerCase c \<notin> set Object_prototype"
  shows "thrown (snd (quit_channels toLowerCase b nick reason cs)) = None
       \<and> observe (fst (quit_channels toLowerCase b nick reason cs))
           = fst (spec_quit toLowerCase nick reason (properties (channelUsers b)) cs)
       \<and> properties (channelUsers (after (snd (quit_channels toLowerCase b nick reason cs))))
           = snd (spec_quit toLowerCase nick reason (properties (channelUsers b)) cs)
       \<and> prototype (channelUsers (after (snd (quit_channels toLowerCase b nick reason cs)))) = None"
  using assms
proof (induction cs arbitrary: b)
  case Nil
  then show ?case by simp
next
  case (Cons c cs)
  have rest: "\<forall>c\<in>set cs. toLowerCase c \<notin> set Object_prototype" using Cons.prems(3) by simp
  have plain: "toLowerCase c \<notin> set Object_prototype" using Cons.prems(3) by simp
  show ?case
  proof (cases "properties (channelUsers b) (toLowerCase c)")
    case None
    then have g: "get_property (channelUsers b) (toLowerCase c) = Undefined"
      using Cons.prems(2) plain by (simp add: get_property_plain)
    have q: "quit_channel toLowerCase b nick reason c =
        ([Log LWarn [Str (''No channelUsers found for '' @ toLowerCase c @ '' when '' @ nick
                              @ '' quit, ignoring.'')]], Returned b)"
      by (simp add: quit_channel_def g)
    show ?thesis using Cons.IH [OF Cons.prems(1,2) rest] None
      by (simp add: q case_prod_beta)
  next
    case (Some users)
    then have g: "get_property (channelUsers b) (toLowerCase c) = Members users"
      by (rule get_property_own)
    show ?thesis
    proof (cases "nick \<in> users")
      case False
      have q: "quit_channel toLowerCase b nick reason c = ([], Returned b)"
        using False by (simp add: quit_channel_def g)
      show ?thesis using Cons.IH [OF Cons.prems(1,2) rest] Some False
        by (simp add: q case_prod_beta)
    next
      case True
      define b1 where "b1 = b\<lparr>channelUsers :=
          replace_members (channelUsers b) (toLowerCase c) (users - {nick})\<rparr>"
      have t: "ircChannel b = Some (toLowerCase c)"
        using Cons.prems(1) Some by (simp add: only_target_def)
      have q: "quit_channel toLowerCase b nick reason c =
          (sendExactToDiscord b (toLowerCase c) (''*'' @ nick @ ''* has quit ('' @ reason @ '')''),
           Returned b1)"
        using True by (simp add: quit_channel_def g b1_def Let_def)
      have cu: "properties (channelUsers b1)
                  = (properties (channelUsers b))(toLowerCase c \<mapsto> users - {nick})"
        and pr: "prototype (channelUsers b1) = None"
        using Some Cons.prems(2) by (simp_all add: b1_def replace_members_def)
      have "only_target b1"
        unfolding b1_def using Cons.prems(1) g by (rule only_target_replace_members)
      note ih = Cons.IH [OF this pr rest]
      have L: "quit_channels toLowerCase b nick reason (c # cs) =
          (sendExactToDiscord b (toLowerCase c) (''*'' @ nick @ ''* has quit ('' @ reason @ '')'')
             @ fst (quit_channels toLowerCase b1 nick reason cs),
           snd (quit_channels toLowerCase b1 nick reason cs))"
        by (simp add: q case_prod_beta)
      have R: "spec_quit toLowerCase nick reason (properties (channelUsers b)) (c # cs) =
          (Exact (''*'' @ nick @ ''* has quit ('' @ reason @ '')'')
             # fst (spec_quit toLowerCase nick reason (properties (channelUsers b1)) cs),
           snd (spec_quit toLowerCase nick reason (properties (channelUsers b1)) cs))"
        using Some True by (simp add: cu case_prod_beta)
      show ?thesis
        unfolding L R using ih t by (simp add: observe_append observe_sendExactToDiscord)
    qed
  qed
qed

lemma quit_policy:
  assumes "reachable toLowerCase fmt opts evs b"
    and "options.ircChannel opts \<noteq> Some ''__proto__''"
    and "\<forall>c\<in>set chans. toLowerCase c \<notin> set Object_prototype"
    and "ircStatusNotices b" and "Some nick \<noteq> ircNickname b"
  shows "thrown (snd (on_quit toLowerCase b nick reason chans)) = None"
    and "observe (fst (on_quit toLowerCase b nick reason chans))
           = fst (spec_quit toLowerCase nick reason (properties (channelUsers b)) chans)"
    and "properties (channelUsers (after (snd (on_quit toLowerCase b nick reason chans))))
           = snd (spec_quit toLowerCase nick reason (properties (channelUsers b)) chans)"
proof -
  have inv: "only_target b" using assms(1) by (rule reachable_invariant)
  have "ircChannel b \<noteq> Some ''__proto__''"
    using reachable_invariant(2) [OF assms(1)] assms(2) by simp
  then have p: "prototype (channelUsers b) = None"
    using inv by (cases "prototype (channelUsers b)") (auto simp: only_target_def)
  note s = quit_channels_spec [OF inv p assms(3), of nick reason]
  show "thrown (snd (on_quit toLowerCase b nick reason chans)) = None"
    using s assms(4,5) by (simp add: on_quit_def case_prod_beta)
  show "observe (fst (on_quit toLowerCase b nick reason chans))
           = fst (spec_quit toLowerCase nick reason (properties (channelUsers b)) chans)"
    using s assms(4,5) by (simp add: on_quit_def case_prod_beta)
  show "properties (channelUsers (after (snd (on_quit toLowerCase b nick reason chans))))
           = snd (spec_quit toLowerCase nick reason (properties (channelUsers b)) chans)"
    using s assms(4,5) by (simp add: on_quit_def case_prod_beta)
qed

lemma quit_self:
  "Some nick = ircNickname b \<Longrightarrow>
   on_quit toLowerCase b nick reason chans =
     ([Log LDebug [Str ''Received quit:'', Str nick, Strs chans]], Returned b)"
  by (simp add: on_quit_def)



subsection \<open>The channel filter on events\<close>

text \<open>
  An event whose channel differs from the target channel even up to case is dropped by
  the message, notice, action, join, part and names listeners, whenever lower-casing a
  lower-cased string changes nothing.
\<close>

lemma other_channel_dropped:
  assumes "\<forall>s. toLowerCase (toLowerCase s) = toLowerCase s"
    and "ircChannel b = Some target" and "\<not> equals_ignoring_case toLowerCase c target"
  shows "handle toLowerCase fmt b (Message author c text) = ([], Returned b)"
    and "handle toLowerCase fmt b (Notice author c text) = ([], Returned b)"
    and "handle toLowerCase fmt b (Action author c text) = ([], Returned b)"
    and "handle toLowerCase fmt b (Join c nick) = ([], Returned b)"
    and "handle toLowerCase fmt b (Part c nick reason) = ([], Returned b)"
    and "handle toLowerCase fmt b (Names c nicks) = ([], Returned b)"
proof -
  have e: "c \<noteq> target" using assms(3) by (auto simp: equals_ignoring_case_def)
  have l: "toLowerCase c \<noteq> target"
  proof
    assume "toLowerCase c = target"
    then have "toLowerCase target = toLowerCase c" using assms(1) by metis
    then show False using assms(3) by (simp add: equals_ignoring_case_def)
  qed
  show "handle toLowerCase fmt b (Message author c text) = ([], Returned b)"
    and "handle toLowerCase fmt b (Notice author c text) = ([], Returned b)"
    and "handle toLowerCase fmt b (Action author c text) = ([], Returned b)"
    using assms(2) e by (simp_all add: on_message_def on_notice_def on_action_def sendToDiscord_def)
  show "handle toLowerCase fmt b (Join c nick) = ([], Returned b)"
    and "handle toLowerCase fmt b (Part c nick reason) = ([], Returned b)"
    and "handle toLowerCase fmt b (Names c nicks) = ([], Returned b)"
    using assms(2) l by (simp_all add: on_join_def on_part_def on_names_def Let_def)
qed

text \<open>
  Claim C1. \<open>sendToDiscord\<close> compares the channel of the event with the target channel
  as it stands, whereas the join, part, quit and names listeners lower-case it first. On
  the example bridge for \<open>#test\<close>, a message, notice or action to \<open>#TEST\<close>, which
  equals the target up to case, is dropped without any call; the same message to
  \<open>#test\<close> is sent to Discord, and the names event for \<open>#TEST\<close> is applied.
\<close>

theorem message_case_sensitive:
  assumes "toLowerCase ''#TEST'' = ''#test''" and "toLowerCase ''#test'' = ''#test''"
  shows "reachable toLowerCase fmt example_options [] example_bot
       \<and> ircChannel example_bot = Some ''#test''
       \<and> equals_ignoring_case toLowerCase ''#TEST'' ''#test''
       \<and> handle toLowerCase fmt example_bot (Message ''Bob'' ''#TEST'' ''hi'') = ([], Returned example_bot)
       \<and> handle toLowerCase fmt example_bot (Notice ''Bob'' ''#TEST'' ''hi'') = ([], Returned example_bot)
       \<and> handle toLowerCase fmt example_bot (Action ''Bob'' ''#TEST'' ''hi'') = ([], Returned example_bot)
       \<and> handle toLowerCase fmt example_bot (Message ''Bob'' ''#test'' ''hi'') =
           ([Log LDebug [Str ''Sending message to Discord'', Str (fmt ''hi''), Str ''#test''],
             SendMessage (fmt ''hi'') (Some ''Bob'')], Returned example_bot)
       \<and> handle toLowerCase fmt example_bot (Names ''#TEST'' [(''Alice'', []), (''Bob'', ''@'')]) =
           ([Log LDebug [Str ''Received names:'', Str ''#TEST'',
                         Nicks [(''Alice'', []), (''Bob'', ''@'')]]],
            Returned tracking_bot)"
proof -
  have m: "handle toLowerCase fmt example_bot (Message ''Bob'' ''#TEST'' ''hi'') = ([], Returned example_bot)"
    "handle toLowerCase fmt example_bot (Notice ''Bob'' ''#TEST'' ''hi'') = ([], Returned example_bot)"
    "handle toLowerCase fmt example_bot (Action ''Bob'' ''#TEST'' ''hi'') = ([], Returned example_bot)"
    "handle toLowerCase fmt example_bot (Message ''Bob'' ''#test'' ''hi'') =
           ([Log LDebug [Str ''Sending message to Discord'', Str (fmt ''hi''), Str ''#test''],
             SendMessage (fmt ''hi'') (Some ''Bob'')], Returned example_bot)"
    by (simp_all add: on_message_def on_notice_def on_action_def sendToDiscord_def example_bot_def)
  have c: "ircChannel example_bot = Some ''#test''" by (simp add: example_bot_def)
  have e: "equals_ignoring_case toLowerCase ''#TEST'' ''#test''"
    using assms by (simp add: equals_ignoring_case_def)
  from m c e reachable_example [of toLowerCase fmt]
    names_example [where toLowerCase = toLowerCase and c = "''#TEST''" and fmt = fmt, OF assms(1)]
  show ?thesis by (simp del: handle.simps)
qed

theorem message_case_sensitive_witness:
  "ascii_toLowerCase ''#TEST'' = ''#test'' \<and> ascii_toLowerCase ''#test'' = ''#test''
   \<and> reachable ascii_toLowerCase (\<lambda>t. t) example_options [] example_bot
   \<and> ircChannel example_bot = Some ''#test''
   \<and> equals_ignoring_case ascii_toLowerCase ''#TEST'' ''#test''
   \<and> handle ascii_toLowerCase (\<lambda>t. t) example_bot (Message ''Bob'' ''#TEST'' ''hi'')
       = ([], Returned example_bot)
   \<and> handle ascii_toLowerCase (\<lambda>t. t) example_bot (Message ''Bob'' ''#test'' ''hi'') =
       ([Log LDebug [Str ''Sending message to Discord'', Str ''hi'', Str ''#test''],
         SendMessage ''hi'' (Some ''Bob'')], Returned example_bot)
   \<and> handle ascii_toLowerCase (\<lambda>t. t) example_bot
        (Names ''#TEST'' [(''Alice'', []), (''Bob'', ''@'')]) =
       ([Log LDebug [Str ''Received names:'', Str ''#TEST'',
                     Nicks [(''Alice'', []), (''Bob'', ''@'')]]],
        Returned tracking_bot)"
  using message_case_sensitive [where toLowerCase = ascii_toLowerCase and fmt = "\<lambda>t. t",
      OF ascii_TEST ascii_test] ascii_TEST ascii_test
  by (simp del: handle.simps)

end
